theory Spec2Isabelle
  imports Main "HOL-Library.Code_Target_Numeral"
begin

section \<open>JavaScript values, errors and effects\<close>

text \<open>
  Strings are byte lists; the few non-ASCII characters the source prints are written
  as their UTF-8 bytes. An \<open>Error\<close> object, as the collaborators (\<open>require\<close>, nodemailer,
  \<open>fs\<close>, the object-storage client) throw it, has an optional \<open>code\<close> and a \<open>message\<close>.
  A function that may throw returns \<open>js_error + 'a\<close>, with \<open>Inl\<close> the thrown error.
\<close>

record js_error =
  code :: "string option"
  message :: string

datatype jsval =
    JUndefined
  | JBool bool
  | JStr string
  | JObj "(string \<times> jsval) list"
  | JError js_error

type_synonym jsobj = "(string \<times> jsval) list"

type_synonym env = "string \<rightharpoonup> string"

text \<open>Truthiness of \<open>process.env.X\<close>: undefined and the empty string are falsy.\<close>

definition truthy :: "string option \<Rightarrow> bool" where
  "truthy v = (case v of None \<Rightarrow> False | Some s \<Rightarrow> s \<noteq> [])"

text \<open>\<open>process.env.X || d\<close>\<close>

definition or_default :: "string option \<Rightarrow> string \<Rightarrow> string" where
  "or_default v d = (case v of None \<Rightarrow> d | Some s \<Rightarrow> if s \<noteq> [] then s else d)"

text \<open>A template literal prints an undefined value as \<open>undefined\<close>.\<close>

definition template :: "string option \<Rightarrow> string" where
  "template v = (case v of None \<Rightarrow> ''undefined'' | Some s \<Rightarrow> s)"

subsection \<open>\<open>parseInt\<close> with no radix\<close>

text \<open>
  A JavaScript number, as far as \<open>parseInt\<close> can return one: \<open>NaN\<close>, an integer that is
  a double, or an infinity. Both zeros are \<open>JNum 0\<close> (they are equal under \<open>===\<close>).
\<close>

datatype js_number = JNaN | JNum int | JInfinity | JMinusInfinity

text \<open>
  ECMAScript \<open>parseInt(string)\<close>: leading white space and line terminators are skipped,
  then an optional sign, then an optional \<open>0x\<close>/\<open>0X\<close> prefix selecting radix 16
  (radix 10 otherwise), then the longest prefix of digits of that radix; no digit gives
  \<open>NaN\<close>. The value of the digits is rounded to the nearest double, ties to even, and
  beyond the range of the doubles it is an infinity (the correctly rounded result, which
  is what Node computes; the standard allows an approximation after the 20th significant
  decimal digit).

  White space, in the UTF-8 bytes of the string: the code points U+0009 to U+000D and
  U+0020 (one byte), U+00A0 (two bytes), and U+1680, U+2000 to U+200A, U+2028, U+2029,
  U+202F, U+205F, U+3000 and U+FEFF (three bytes).
\<close>

definition isWhiteSpace :: "char \<Rightarrow> bool" where
  "isWhiteSpace c = (c \<in> set [CHR 0x09, CHR 0x0A, CHR 0x0B, CHR 0x0C, CHR 0x0D, CHR 0x20])"

definition isWhiteSpace2 :: "char \<Rightarrow> char \<Rightarrow> bool" where
  "isWhiteSpace2 c1 c2 = (c1 = CHR 0xC2 \<and> c2 = CHR 0xA0)"

definition isWhiteSpace3 :: "char \<Rightarrow> char \<Rightarrow> char \<Rightarrow> bool" where
  "isWhiteSpace3 c1 c2 c3 =
     ((c1 = CHR 0xE1 \<and> c2 = CHR 0x9A \<and> c3 = CHR 0x80)
      \<or> (c1 = CHR 0xE2 \<and> c2 = CHR 0x80
           \<and> ((128 \<le> (of_char c3 :: nat) \<and> (of_char c3 :: nat) \<le> 138)
                \<or> c3 = CHR 0xA8 \<or> c3 = CHR 0xA9 \<or> c3 = CHR 0xAF))
      \<or> (c1 = CHR 0xE2 \<and> c2 = CHR 0x81 \<and> c3 = CHR 0x9F)
      \<or> (c1 = CHR 0xE3 \<and> c2 = CHR 0x80 \<and> c3 = CHR 0x80)
      \<or> (c1 = CHR 0xEF \<and> c2 = CHR 0xBB \<and> c3 = CHR 0xBF))"

fun trimStart :: "string \<Rightarrow> string" where
  "trimStart (c1 # c2 # c3 # r) =
     (if isWhiteSpace c1 then trimStart (c2 # c3 # r)
      else if isWhiteSpace2 c1 c2 then trimStart (c3 # r)
      else if isWhiteSpace3 c1 c2 c3 then trimStart r
      else c1 # c2 # c3 # r)"
| "trimStart [c1, c2] =
     (if isWhiteSpace c1 then trimStart [c2]
      else if isWhiteSpace2 c1 c2 then []
      else [c1, c2])"
| "trimStart [c1] = (if isWhiteSpace c1 then [] else [c1])"
| "trimStart [] = []"

definition digitValue :: "char \<Rightarrow> nat option" where
  "digitValue c =
     (let n = (of_char c :: nat) in
      if 48 \<le> n \<and> n \<le> 57 then Some (n - 48)
      else if 97 \<le> n \<and> n \<le> 122 then Some (n - 87)
      else if 65 \<le> n \<and> n \<le> 90 then Some (n - 55)
      else None)"

definition isDigitOf :: "nat \<Rightarrow> char \<Rightarrow> bool" where
  "isDigitOf radix c = (case digitValue c of None \<Rightarrow> False | Some d \<Rightarrow> d < radix)"

definition digitsValue :: "nat \<Rightarrow> string \<Rightarrow> nat" where
  "digitsValue radix ds = foldl (\<lambda>a c. a * radix + (case digitValue c of None \<Rightarrow> 0 | Some d \<Rightarrow> d)) 0 ds"

text \<open>The number of binary digits of \<open>n\<close>.\<close>

fun bit_length :: "nat \<Rightarrow> nat" where
  "bit_length n = (if n = 0 then 0 else Suc (bit_length (n div 2)))"

declare bit_length.simps [simp del]

text \<open>
  The double nearest to the natural number \<open>n\<close>: exact below \<open>2^53\<close>; above, the 53
  leading binary digits, rounded to nearest with ties to even; \<open>None\<close> when the rounded
  value reaches \<open>2^1024\<close>.
\<close>

definition nearest_double :: "nat \<Rightarrow> nat option" where
  "nearest_double n =
     (if n < 2 ^ 53 then Some n
      else
        (let e = bit_length n - 53;
             q = n div 2 ^ e;
             r = n mod 2 ^ e;
             half = 2 ^ (e - 1);
             q' = (if half < r \<or> (r = half \<and> odd q) then q + 1 else q);
             v = q' * 2 ^ e
         in if v < 2 ^ 1024 then Some v else None))"

definition parseInt :: "string \<Rightarrow> js_number" where
  "parseInt s =
     (let t = trimStart s;
          neg = (case t of [] \<Rightarrow> False | c # _ \<Rightarrow> c = CHR ''-'');
          t1 = (case t of [] \<Rightarrow> [] | c # r \<Rightarrow> if c = CHR ''-'' \<or> c = CHR ''+'' then r else t);
          hex = (case t1 of c # x # _ \<Rightarrow> c = CHR ''0'' \<and> (x = CHR ''x'' \<or> x = CHR ''X'') | _ \<Rightarrow> False);
          radix = (if hex then 16 else 10);
          t2 = (if hex then drop 2 t1 else t1);
          ds = takeWhile (isDigitOf radix) t2
      in if ds = [] then JNaN
         else
           (case nearest_double (digitsValue radix ds) of
              None \<Rightarrow> (if neg then JMinusInfinity else JInfinity)
            | Some v \<Rightarrow> JNum ((if neg then - 1 else 1) * int v)))"

subsection \<open>Effects\<close>

record transport_config =
  host :: string
  port :: js_number
  secure :: bool
  auth_user :: "string option"
  auth_pass :: "string option"
  tls_rejectUnauthorized :: bool
  connectionTimeout :: nat
  greetingTimeout :: nat
  socketTimeout :: nat

record mail_options =
  mail_from :: string
  mail_to :: string
  subject :: string
  html :: string

text \<open>
  What a call does besides returning: the console lines it prints (with the arguments of
  each \<open>console\<close> call) and the collaborator calls it makes, in order.
\<close>

datatype effect =
    Console_log "jsval list"
  | Console_warn "jsval list"
  | Console_error "jsval list"
  | Require string
  | CreateTransport transport_config
  | SendMail mail_options
  | UploadToCloudinary string
  | UnlinkSync string

section \<open>The email module (server/src/utils/email.js)\<close>

text \<open>
  The module variables \<open>transporter\<close> and \<open>nodemailerChecked\<close>; \<open>'h\<close> is the type of
  nodemailer's transport objects (always truthy).
\<close>

record 'h module_state =
  transporter :: "'h option"
  nodemailerChecked :: bool

definition initial_state :: "'h module_state" where
  "initial_state = \<lparr>transporter = None, nodemailerChecked = False\<rparr>"

text \<open>
  What a call finds around it: the environment variables and the behaviour of the
  collaborators at that moment.
\<close>

record 'h world =
  env :: env
  require_nodemailer :: "js_error + unit"
  createTransport :: "transport_config \<Rightarrow> js_error + 'h"
  sendMail :: "'h \<Rightarrow> mail_options \<Rightarrow> js_error + unit"

text \<open>\<open>loadNodemailer\<close>: the module (\<open>True\<close>) or \<open>null\<close> (\<open>False\<close>).\<close>

definition loadNodemailer :: "'h world \<Rightarrow> bool \<times> effect list" where
  "loadNodemailer w =
     (case require_nodemailer w of
        Inr _ \<Rightarrow> (True, [Require ''nodemailer''])
      | Inl e \<Rightarrow> (False, [Require ''nodemailer'']))"

definition check_mark :: string where
  "check_mark = [CHR 0xE2, CHR 0x9C, CHR 0x85]"

definition cross_mark :: string where
  "cross_mark = [CHR 0xE2, CHR 0x9D, CHR 0x8C]"

definition warning_sign :: string where
  "warning_sign = [CHR 0xE2, CHR 0x9A, CHR 0xA0, CHR 0xEF, CHR 0xB8, CHR 0x8F]"

definition e_mail_symbol :: string where
  "e_mail_symbol = [CHR 0xF0, CHR 0x9F, CHR 0x93, CHR 0xA7]"

text \<open>The object literal passed to \<open>nodemailer.createTransport\<close>.\<close>

definition transportConfig :: "env \<Rightarrow> transport_config" where
  "transportConfig ev =
     (let useSSL = (ev ''EMAIL_PORT'' = Some ''465'') in
      \<lparr>host = or_default (ev ''EMAIL_HOST'') ''smtp.gmail.com'',
       port = parseInt (or_default (ev ''EMAIL_PORT'') ''587''),
       secure = useSSL,
       auth_user = ev ''EMAIL_USER'',
       auth_pass = ev ''EMAIL_PASS'',
       tls_rejectUnauthorized = False,
       connectionTimeout = 10000,
       greetingTimeout = 10000,
       socketTimeout = 10000\<rparr>)"

text \<open>
  \<open>getTransporter\<close> returns its completion (the handle or \<open>null\<close>), the module state
  after the call and the effects of the call.
\<close>

definition getTransporter ::
  "'h world \<Rightarrow> 'h module_state \<Rightarrow> (js_error + 'h option) \<times> 'h module_state \<times> effect list" where
  "getTransporter w s =
     (case transporter s of
        Some h \<Rightarrow> (Inr (Some h), s, [])
      | None \<Rightarrow>
          if nodemailerChecked s then (Inr None, s, [])
          else
            (case loadNodemailer w of
               (False, t0) \<Rightarrow> (Inr None, s\<lparr>nodemailerChecked := True\<rparr>, t0)
             | (True, t0) \<Rightarrow>
                 if truthy (env w ''EMAIL_USER'') \<and> truthy (env w ''EMAIL_PASS'') then
                   (case createTransport w (transportConfig (env w)) of
                      Inr h \<Rightarrow>
                        (Inr (Some h),
                         s\<lparr>transporter := Some h, nodemailerChecked := True\<rparr>,
                         t0 @ [CreateTransport (transportConfig (env w)),
                               Console_log [JStr (check_mark @ '' Email transporter configured successfully'')]])
                    | Inl error \<Rightarrow>
                        (Inr (transporter s),
                         s\<lparr>nodemailerChecked := True\<rparr>,
                         t0 @ [CreateTransport (transportConfig (env w)),
                               Console_error [JStr (cross_mark @ '' Failed to create email transporter:''),
                                              JStr (message error)]]))
                 else
                   (Inr (transporter s),
                    s\<lparr>nodemailerChecked := True\<rparr>,
                    t0 @ [Console_warn [JStr (warning_sign @ ''  EMAIL_USER or EMAIL_PASS not set in environment'')]])))"

text \<open>\<open>logEmailToConsole(type, to, url)\<close>: fourteen \<open>console.log\<close> calls.\<close>

definition logEmailToConsole :: "string \<Rightarrow> string \<Rightarrow> string \<Rightarrow> effect list" where
  "logEmailToConsole type to url =
     (let line = replicate 50 (CHR ''='') in
      [Console_log [JStr ([CHR 0x0A] @ line)],
       Console_log [JStr ('' '' @ e_mail_symbol @ '' '' @ type)],
       Console_log [JStr line],
       Console_log [JStr ('' To:      '' @ to)],
       Console_log [JStr ('' Link:    '' @ url)],
       Console_log [JStr line],
       Console_log [JStr ('' '' @ [CHR 0x0A] @ '' '' @ warning_sign @ ''  EMAIL CONFIGURATION INCOMPLETE'')],
       Console_log [JStr ''    To enable real emails:''],
       Console_log [JStr ''    1. Ensure nodemailer is installed: npm install nodemailer''],
       Console_log [JStr ''    2. Add to server/.env:''],
       Console_log [JStr ''       EMAIL_USER=your-email@gmail.com''],
       Console_log [JStr ''       EMAIL_PASS=your-app-password''],
       Console_log [JStr ''    3. Restart the server''],
       Console_log [JStr ('' '' @ line @ [CHR 0x0A])]])"

definition verificationUrl :: "env \<Rightarrow> string \<Rightarrow> string" where
  "verificationUrl ev token =
     or_default (ev ''CLIENT_URL'') ''http://localhost:5173'' @ ''/verify-email/'' @ token"

definition resetUrl :: "env \<Rightarrow> string \<Rightarrow> string" where
  "resetUrl ev token =
     or_default (ev ''CLIENT_URL'') ''http://localhost:5173'' @ ''/reset-password/'' @ token"

definition link_style :: string where
  "link_style = ''display: inline-block; padding: 10px 20px; color: white; background-color: #007bff; text-decoration: none; border-radius: 5px;''"

definition verificationMailOptions :: "env \<Rightarrow> string \<Rightarrow> string \<Rightarrow> mail_options" where
  "verificationMailOptions ev email url =
     \<lparr>mail_from = [CHR 0x22] @ ''Seekon'' @ [CHR 0x22] @ '' <'' @ template (ev ''EMAIL_USER'') @ ''>'',
      mail_to = email,
      subject = ''Verify Your Email Address'',
      html = [CHR 0x0A]
        @ ''      <h2>Verify Your Email</h2>'' @ [CHR 0x0A]
        @ ''      <p>Thank you for registering with Seekon. Please click the link below to verify your email address:</p>'' @ [CHR 0x0A]
        @ ''      <a href='' @ [CHR 0x22] @ url @ [CHR 0x22] @ '' style='' @ [CHR 0x22] @ link_style @ [CHR 0x22] @ ''>Verify Email</a>'' @ [CHR 0x0A]
        @ ''      <p>If the button above doesn'' @ [CHR 0x27] @ ''t work, copy and paste this link into your browser:</p>'' @ [CHR 0x0A]
        @ ''      <p>'' @ url @ ''</p>'' @ [CHR 0x0A]
        @ ''      <p>This link will expire in 24 hours.</p>'' @ [CHR 0x0A]
        @ ''      <p>If you did not create an account with Seekon, please ignore this email.</p>'' @ [CHR 0x0A]
        @ ''    ''\<rparr>"

definition passwordResetMailOptions :: "env \<Rightarrow> string \<Rightarrow> string \<Rightarrow> mail_options" where
  "passwordResetMailOptions ev email url =
     \<lparr>mail_from = [CHR 0x22] @ ''Seekon'' @ [CHR 0x22] @ '' <'' @ template (ev ''EMAIL_USER'') @ ''>'',
      mail_to = email,
      subject = ''Reset Your Password'',
      html = [CHR 0x0A]
        @ ''      <h2>Password Reset Request</h2>'' @ [CHR 0x0A]
        @ ''      <p>We received a request to reset your password. Click the link below to set a new password:</p>'' @ [CHR 0x0A]
        @ ''      <a href='' @ [CHR 0x22] @ url @ [CHR 0x22] @ '' style='' @ [CHR 0x22] @ link_style @ [CHR 0x22] @ ''>Reset Password</a>'' @ [CHR 0x0A]
        @ ''      <p>If the button above doesn'' @ [CHR 0x27] @ ''t work, copy and paste this link into your browser:</p>'' @ [CHR 0x0A]
        @ ''      <p>'' @ url @ ''</p>'' @ [CHR 0x0A]
        @ ''      <p>This link will expire in 10 minutes for security reasons.</p>'' @ [CHR 0x0A]
        @ ''      <p>If you did not request a password reset, please ignore this email or contact support.</p>'' @ [CHR 0x0A]
        @ ''    ''\<rparr>"

text \<open>\<open>error.code === 'ESOCKET' || error.code === 'ETIMEDOUT' || error.code === 'ECONNREFUSED'\<close>\<close>

definition connection_error :: "js_error \<Rightarrow> bool" where
  "connection_error error =
     (code error = Some ''ESOCKET'' \<or> code error = Some ''ETIMEDOUT'' \<or> code error = Some ''ECONNREFUSED'')"

text \<open>
  The two dispatcher operations return their completion (\<open>Inl\<close>: the promise rejects with
  that error; \<open>Inr\<close>: it resolves to that object), the module state and the effects.
\<close>

definition sendVerificationEmail ::
  "'h world \<Rightarrow> 'h module_state \<Rightarrow> string \<Rightarrow> string \<Rightarrow> (js_error + jsobj) \<times> 'h module_state \<times> effect list" where
  "sendVerificationEmail w s email token =
     (let url = verificationUrl (env w) token in
      case getTransporter w s of
        (Inl e, s1, t1) \<Rightarrow> (Inl e, s1, t1)
      | (Inr None, s1, t1) \<Rightarrow>
          (Inr [(''success'', JBool True),
                (''message'', JStr ''Email logged to console (check server logs)''),
                (''development'', JBool True),
                (''verificationUrl'', JStr url)],
           s1, t1 @ logEmailToConsole ''VERIFICATION EMAIL'' email url)
      | (Inr (Some mailer), s1, t1) \<Rightarrow>
          (let mailOptions = verificationMailOptions (env w) email url in
           case sendMail w mailer mailOptions of
             Inr _ \<Rightarrow>
               (Inr [(''success'', JBool True),
                     (''message'', JStr ''Verification email sent successfully'')],
                s1,
                t1 @ [SendMail mailOptions,
                      Console_log [JStr (check_mark @ '' Verification email sent to '' @ email)]])
           | Inl error \<Rightarrow>
               if connection_error error then
                 (Inr [(''success'', JBool True),
                       (''message'', JStr ''Email logged to console (SMTP connection failed - check your network/firewall)''),
                       (''development'', JBool True),
                       (''verificationUrl'', JStr url)],
                  s1,
                  t1 @ [SendMail mailOptions,
                        Console_error [JStr (cross_mark @ '' Error sending verification email:''), JStr (message error)],
                        Console_log [JStr (warning_sign @ ''  Email server connection failed. Falling back to console logging...'')]]
                     @ logEmailToConsole ''VERIFICATION EMAIL'' email url)
               else
                 (Inr [(''success'', JBool False),
                       (''message'', JStr ''Failed to send verification email''),
                       (''error'', JStr (message error))],
                  s1,
                  t1 @ [SendMail mailOptions,
                        Console_error [JStr (cross_mark @ '' Error sending verification email:''), JStr (message error)]])))"

definition sendPasswordResetEmail ::
  "'h world \<Rightarrow> 'h module_state \<Rightarrow> string \<Rightarrow> string \<Rightarrow> (js_error + jsobj) \<times> 'h module_state \<times> effect list" where
  "sendPasswordResetEmail w s email token =
     (let url = resetUrl (env w) token in
      case getTransporter w s of
        (Inl e, s1, t1) \<Rightarrow> (Inl e, s1, t1)
      | (Inr None, s1, t1) \<Rightarrow>
          (Inr [(''success'', JBool True),
                (''message'', JStr ''Email logged to console (check server logs)''),
                (''development'', JBool True),
                (''resetUrl'', JStr url)],
           s1, t1 @ logEmailToConsole ''PASSWORD RESET EMAIL'' email url)
      | (Inr (Some mailer), s1, t1) \<Rightarrow>
          (let mailOptions = passwordResetMailOptions (env w) email url in
           case sendMail w mailer mailOptions of
             Inr _ \<Rightarrow>
               (Inr [(''success'', JBool True),
                     (''message'', JStr ''Password reset email sent successfully'')],
                s1,
                t1 @ [SendMail mailOptions,
                      Console_log [JStr (check_mark @ '' Password reset email sent to '' @ email)]])
           | Inl error \<Rightarrow>
               if connection_error error then
                 (Inr [(''success'', JBool True),
                       (''message'', JStr ''Email logged to console (SMTP connection failed - check your network/firewall)''),
                       (''development'', JBool True),
                       (''resetUrl'', JStr url)],
                  s1,
                  t1 @ [SendMail mailOptions,
                        Console_error [JStr (cross_mark @ '' Error sending password reset email:''), JStr (message error)],
                        Console_log [JStr (warning_sign @ ''  Email server connection failed. Falling back to console logging...'')]]
                     @ logEmailToConsole ''PASSWORD RESET EMAIL'' email url)
               else
                 (Inr [(''success'', JBool False),
                       (''message'', JStr ''Failed to send password reset email''),
                       (''error'', JStr (message error))],
                  s1,
                  t1 @ [SendMail mailOptions,
                        Console_error [JStr (cross_mark @ '' Error sending password reset email:''), JStr (message error)]])))"

subsection \<open>Callers of the module\<close>

text \<open>
  A caller picks one of the two operations; a process is a sequence of calls, each in the
  world it finds, on the module state the previous call left.
\<close>

datatype kind = Verification | PasswordReset

definition dispatch ::
  "kind \<Rightarrow> 'h world \<Rightarrow> 'h module_state \<Rightarrow> string \<Rightarrow> string \<Rightarrow> (js_error + jsobj) \<times> 'h module_state \<times> effect list" where
  "dispatch k w s email token =
     (case k of
        Verification \<Rightarrow> sendVerificationEmail w s email token
      | PasswordReset \<Rightarrow> sendPasswordResetEmail w s email token)"

record 'h call =
  call_kind :: kind
  call_world :: "'h world"
  call_email :: string
  call_token :: string

fun run ::
  "'h call list \<Rightarrow> 'h module_state \<Rightarrow> (js_error + jsobj) list \<times> 'h module_state \<times> effect list" where
  "run [] s = ([], s, [])"
| "run (c # cs) s =
     (case dispatch (call_kind c) (call_world c) s (call_email c) (call_token c) of
        (r, s1, t1) \<Rightarrow> (case run cs s1 of (rs, s2, t2) \<Rightarrow> (r # rs, s2, t1 @ t2)))"

fun getTransporter_seq ::
  "'h world list \<Rightarrow> 'h module_state \<Rightarrow> (js_error + 'h option) list \<times> 'h module_state \<times> effect list" where
  "getTransporter_seq [] s = ([], s, [])"
| "getTransporter_seq (w # ws) s =
     (case getTransporter w s of
        (r, s1, t1) \<Rightarrow> (case getTransporter_seq ws s1 of (rs, s2, t2) \<Rightarrow> (r # rs, s2, t1 @ t2)))"

text \<open>The per-kind constants of the two operations, for stating their results.\<close>

definition url_key :: "kind \<Rightarrow> string" where
  "url_key k = (case k of Verification \<Rightarrow> ''verificationUrl'' | PasswordReset \<Rightarrow> ''resetUrl'')"

definition action_url :: "kind \<Rightarrow> env \<Rightarrow> string \<Rightarrow> string" where
  "action_url k ev token =
     (case k of Verification \<Rightarrow> verificationUrl ev token | PasswordReset \<Rightarrow> resetUrl ev token)"

definition log_type :: "kind \<Rightarrow> string" where
  "log_type k = (case k of Verification \<Rightarrow> ''VERIFICATION EMAIL'' | PasswordReset \<Rightarrow> ''PASSWORD RESET EMAIL'')"

definition mail_options_of :: "kind \<Rightarrow> env \<Rightarrow> string \<Rightarrow> string \<Rightarrow> mail_options" where
  "mail_options_of k ev email url =
     (case k of
        Verification \<Rightarrow> verificationMailOptions ev email url
      | PasswordReset \<Rightarrow> passwordResetMailOptions ev email url)"

definition kind_words :: "kind \<Rightarrow> string" where
  "kind_words k = (case k of Verification \<Rightarrow> ''verification'' | PasswordReset \<Rightarrow> ''password reset'')"

text \<open>The object of a fallback outcome with message \<open>msg\<close>.\<close>

definition development_outcome :: "kind \<Rightarrow> string \<Rightarrow> string \<Rightarrow> jsobj" where
  "development_outcome k msg url =
     [(''success'', JBool True), (''message'', JStr msg),
      (''development'', JBool True), (url_key k, JStr url)]"

text \<open>
  What a call in fallback mode returns and prints: the first fallback message, and one
  run of \<open>logEmailToConsole\<close> with the call's recipient and action URL.
\<close>

definition fallback_result :: "'h call \<Rightarrow> js_error + jsobj" where
  "fallback_result c =
     Inr (development_outcome (call_kind c) ''Email logged to console (check server logs)''
            (action_url (call_kind c) (env (call_world c)) (call_token c)))"

definition fallback_log :: "'h call \<Rightarrow> effect list" where
  "fallback_log c =
     logEmailToConsole (log_type (call_kind c)) (call_email c)
       (action_url (call_kind c) (env (call_world c)) (call_token c))"

text \<open>\<open>!(process.env.EMAIL_USER && process.env.EMAIL_PASS)\<close>\<close>

definition no_credentials :: "env \<Rightarrow> bool" where
  "no_credentials ev = (\<not> truthy (ev ''EMAIL_USER'') \<or> \<not> truthy (ev ''EMAIL_PASS''))"

text \<open>The objects of the other two outcomes, and the line a failed send logs.\<close>

definition sent_outcome :: "kind \<Rightarrow> jsobj" where
  "sent_outcome k =
     [(''success'', JBool True),
      (''message'', JStr (case k of Verification \<Rightarrow> ''Verification email sent successfully''
                                  | PasswordReset \<Rightarrow> ''Password reset email sent successfully''))]"

definition failed_outcome :: "kind \<Rightarrow> string \<Rightarrow> jsobj" where
  "failed_outcome k detail =
     [(''success'', JBool False),
      (''message'', JStr (''Failed to send '' @ kind_words k @ '' email'')),
      (''error'', JStr detail)]"

definition send_error_log :: "kind \<Rightarrow> js_error \<Rightarrow> effect" where
  "send_error_log k error =
     Console_error [JStr (cross_mark @ '' Error sending '' @ kind_words k @ '' email:''), JStr (message error)]"

text \<open>
  The shape of an outcome object of kind \<open>k\<close>: its fields are among \<open>success\<close>,
  \<open>message\<close>, \<open>development\<close>, \<open>verificationUrl\<close> or \<open>resetUrl\<close> (by kind) and \<open>error\<close>,
  each at most once; \<open>success\<close> is a boolean and \<open>message\<close> a string, always present;
  \<open>development\<close>, when present, is \<open>true\<close>; the URL field and \<open>error\<close>, when present,
  are strings.
\<close>

definition field_is_bool :: "jsval option \<Rightarrow> bool" where
  "field_is_bool v = (case v of Some (JBool b) \<Rightarrow> True | _ \<Rightarrow> False)"

definition field_is_string :: "jsval option \<Rightarrow> bool" where
  "field_is_string v = (case v of Some (JStr x) \<Rightarrow> True | _ \<Rightarrow> False)"

definition outcome_shape :: "kind \<Rightarrow> jsobj \<Rightarrow> bool" where
  "outcome_shape k out =
     (distinct (map fst out)
      \<and> list_all (\<lambda>f. f \<in> set [''success'', ''message'', ''development'', url_key k, ''error'']) (map fst out)
      \<and> field_is_bool (map_of out ''success'')
      \<and> field_is_string (map_of out ''message'')
      \<and> (map_of out ''development'' = None \<or> map_of out ''development'' = Some (JBool True))
      \<and> (map_of out (url_key k) = None \<or> field_is_string (map_of out (url_key k)))
      \<and> (map_of out ''error'' = None \<or> field_is_string (map_of out ''error'')))"

section \<open>The upload controller (server/src/controllers/uploadController.js)\<close>

text \<open>
  \<open>req.file\<close> is absent or has a \<open>path\<close>. The file system is a state of type \<open>'fs\<close>;
  \<open>uploadToCloudinary\<close> (of config/cloudinary.js) and \<open>fs.unlinkSync\<close> are collaborators
  that return or throw. The controller's result is the response it sends.
\<close>

record uploaded_file =
  path :: string

record upload_request =
  req_file :: "uploaded_file option"

record cloudinary_result =
  cloud_url :: string
  public_id :: string

record response =
  status :: nat
  body :: jsobj

record 'fs upload_world =
  upload_env :: env
  uploadToCloudinary :: "'fs \<Rightarrow> string \<Rightarrow> (js_error + cloudinary_result) \<times> 'fs"
  unlinkSync :: "'fs \<Rightarrow> string \<Rightarrow> js_error + 'fs"

definition set_or_not :: "string option \<Rightarrow> jsval" where
  "set_or_not v = (if truthy v then JStr ''Set'' else JStr ''Not set'')"

text \<open>The \<open>catch (error)\<close> block of \<open>uploadFile\<close>.\<close>

definition uploadFile_catch ::
  "'fs upload_world \<Rightarrow> 'fs \<Rightarrow> upload_request \<Rightarrow> js_error \<Rightarrow> (js_error + response) \<times> 'fs \<times> effect list" where
  "uploadFile_catch w fs req error =
     (let (fs1, t1) =
            (case req_file req of
               None \<Rightarrow> (fs, [])
             | Some f \<Rightarrow>
                 if path f \<noteq> [] then
                   (case unlinkSync w fs (path f) of
                      Inr fs' \<Rightarrow> (fs', [UnlinkSync (path f)])
                    | Inl unlinkError \<Rightarrow>
                        (fs, [UnlinkSync (path f),
                              Console_error [JStr ''Error deleting temporary file:'', JError unlinkError]]))
                 else (fs, []))
      in (Inr \<lparr>status = 500,
               body = [(''success'', JBool False),
                       (''message'', JStr (if message error \<noteq> [] then message error else ''Upload failed''))]\<rparr>,
          fs1,
          t1 @ [Console_error [JStr ''Upload error details:'', JError error],
                Console_error [JStr ''Cloudinary config:'',
                               JObj [(''cloud_name'', set_or_not (upload_env w ''CLOUDINARY_CLOUD_NAME'')),
                                     (''api_key'', set_or_not (upload_env w ''CLOUDINARY_API_KEY'')),
                                     (''api_secret'', set_or_not (upload_env w ''CLOUDINARY_API_SECRET''))]]]))"

definition uploadFile ::
  "'fs upload_world \<Rightarrow> 'fs \<Rightarrow> upload_request \<Rightarrow> (js_error + response) \<times> 'fs \<times> effect list" where
  "uploadFile w fs req =
     (case req_file req of
        None \<Rightarrow>
          (Inr \<lparr>status = 400,
                body = [(''success'', JBool False), (''message'', JStr ''No file uploaded'')]\<rparr>,
           fs, [])
      | Some f \<Rightarrow>
          (case uploadToCloudinary w fs (path f) of
             (Inl error, fs1) \<Rightarrow>
               (case uploadFile_catch w fs1 req error of
                  (r, fs2, t2) \<Rightarrow> (r, fs2, UploadToCloudinary (path f) # t2))
           | (Inr result, fs1) \<Rightarrow>
               (case unlinkSync w fs1 (path f) of
                  Inl error \<Rightarrow>
                    (case uploadFile_catch w fs1 req error of
                       (r, fs2, t2) \<Rightarrow> (r, fs2, [UploadToCloudinary (path f), UnlinkSync (path f)] @ t2))
                | Inr fs2 \<Rightarrow>
                    (Inr \<lparr>status = 200,
                          body = [(''success'', JBool True),
                                  (''message'', JStr ''File uploaded successfully''),
                                  (''data'', JObj [(''url'', JStr (cloud_url result)),
                                                   (''publicId'', JStr (public_id result))])]\<rparr>,
                     fs2, [UploadToCloudinary (path f), UnlinkSync (path f)]))))"

section \<open>Example worlds\<close>

text \<open>
  Concrete surroundings for evaluating the model: an environment with both credentials,
  and a world with nodemailer installed whose \<open>sendMail\<close> completes as given.
\<close>

definition env_configured :: env where
  "env_configured = [''EMAIL_USER'' \<mapsto> ''shop@example.com'', ''EMAIL_PASS'' \<mapsto> ''app-password'']"

definition world_of :: "env \<Rightarrow> (js_error + unit) \<Rightarrow> nat world" where
  "world_of ev sent =
     \<lparr>env = ev, require_nodemailer = Inr (),
      createTransport = (\<lambda>cfg. Inr 1), sendMail = (\<lambda>h m. sent)\<rparr>"

text \<open>Two errors a send can throw, and a world where building the transport throws.\<close>

definition refused :: js_error where
  "refused = \<lparr>code = Some ''ECONNREFUSED'', message = ''connect ECONNREFUSED 127.0.0.1:587''\<rparr>"

definition invalid_login :: js_error where
  "invalid_login = \<lparr>code = Some ''EAUTH'', message = ''Invalid login''\<rparr>"

definition world_construction_fails :: "nat world" where
  "world_construction_fails =
     \<lparr>env = env_configured, require_nodemailer = Inr (),
      createTransport = (\<lambda>cfg. Inl \<lparr>code = None, message = ''Invalid transport configuration''\<rparr>),
      sendMail = (\<lambda>h m. Inr ())\<rparr>"

text \<open>
  An upload world where the upload succeeds and every \<open>fs.unlinkSync\<close> throws
  (a file still held open, a directory without write permission).
\<close>

definition unlink_error :: js_error where
  "unlink_error = \<lparr>code = Some ''EPERM'', message = ''EPERM: operation not permitted, unlink''\<rparr>"

definition upload_world_unlink_fails :: "string list upload_world" where
  "upload_world_unlink_fails =
     \<lparr>upload_env = [''CLOUDINARY_CLOUD_NAME'' \<mapsto> ''demo'', ''CLOUDINARY_API_KEY'' \<mapsto> ''key'',
                    ''CLOUDINARY_API_SECRET'' \<mapsto> ''secret''],
      uploadToCloudinary =
        (\<lambda>fs p. (Inr \<lparr>cloud_url = ''https://res.cloudinary.com/demo/image/upload/sample.jpg'',
                       public_id = ''sample''\<rparr>, fs)),
      unlinkSync = (\<lambda>fs p. Inl unlink_error)\<rparr>"

section \<open>The transport resolver\<close>

lemma getTransporter_result:
  "getTransporter w s = (r, s1, t1) \<Longrightarrow>
     r = Inr (transporter s1) \<and> (transporter s1 \<noteq> None \<or> nodemailerChecked s1)"
  by (auto simp: getTransporter_def loadNodemailer_def split: option.splits if_splits sum.splits)

lemma getTransporter_settled:
  "transporter s \<noteq> None \<or> nodemailerChecked s \<Longrightarrow> getTransporter w s = (Inr (transporter s), s, [])"
  by (auto simp: getTransporter_def split: option.splits)

lemma getTransporter_seq_settled:
  "transporter s \<noteq> None \<or> nodemailerChecked s \<Longrightarrow>
     getTransporter_seq ws s = (replicate (length ws) (Inr (transporter s)), s, [])"
  by (induction ws) (simp_all add: getTransporter_settled)

lemma getTransporter_checks_once:
  "getTransporter w s = (r, s1, t1) \<Longrightarrow> length (filter (\<lambda>e. e = Require ''nodemailer'') t1) \<le> 1"
  by (auto simp: getTransporter_def loadNodemailer_def split: option.splits if_splits sum.splits)

lemma env_world_of: "env (world_of ev sent) = ev"
  by (simp add: world_of_def)

lemma sendMail_world_of: "sendMail (world_of ev sent) h m = sent"
  by (simp add: world_of_def)

lemma getTransporter_unconfigured:
  "getTransporter (world_of Map.empty sent) initial_state =
     (Inr None, \<lparr>transporter = None, nodemailerChecked = True\<rparr>,
      [Require ''nodemailer'',
       Console_warn [JStr (warning_sign @ ''  EMAIL_USER or EMAIL_PASS not set in environment'')]])"
  by (simp add: getTransporter_def loadNodemailer_def world_of_def initial_state_def truthy_def)

lemma getTransporter_configured:
  "getTransporter (world_of env_configured sent) initial_state =
     (Inr (Some 1), \<lparr>transporter = Some 1, nodemailerChecked = True\<rparr>,
      [Require ''nodemailer'', CreateTransport (transportConfig env_configured),
       Console_log [JStr (check_mark @ '' Email transporter configured successfully'')]])"
  by (simp add: getTransporter_def loadNodemailer_def world_of_def initial_state_def truthy_def
        env_configured_def)

lemma getTransporter_no_credentials:
  assumes "transporter s = None" and "no_credentials (env w)"
  shows "\<exists>pre. getTransporter w s = (Inr None, s\<lparr>nodemailerChecked := True\<rparr>, pre)
           \<and> pre \<in> {[], [Require ''nodemailer''],
                     [Require ''nodemailer'',
                      Console_warn [JStr (warning_sign @ ''  EMAIL_USER or EMAIL_PASS not set in environment'')]]}"
  using assms
  by (cases s) (auto simp: getTransporter_def loadNodemailer_def no_credentials_def split: sum.splits)

lemma getTransporter_construction_fails:
  assumes "transporter s = None" and "\<not> nodemailerChecked s"
    and "require_nodemailer w = Inr u"
    and "truthy (env w ''EMAIL_USER'')" and "truthy (env w ''EMAIL_PASS'')"
    and "createTransport w (transportConfig (env w)) = Inl error"
  shows "getTransporter w s =
           (Inr None, s\<lparr>nodemailerChecked := True\<rparr>,
            [Require ''nodemailer'', CreateTransport (transportConfig (env w)),
             Console_error [JStr (cross_mark @ '' Failed to create email transporter:''),
                            JStr (message error)]])"
  using assms by (simp add: getTransporter_def loadNodemailer_def)

text \<open>
  C5. Whatever the state \<open>s\<close> and the world \<open>w1\<close> of a first call to \<open>getTransporter\<close>,
  once it has completed with result \<open>r1\<close> in state \<open>s1\<close>, every later call, in any worlds
  \<open>ws\<close> (any environment, any behaviour of the library), returns \<open>r1\<close> again, leaves the
  state as it is and has no effect at all: the library is not loaded again and the result
  does not depend on the later environments. The first call itself loads the library at
  most once. In particular a cached \<open>null\<close> stays \<open>null\<close> when the credentials are set
  later.
\<close>

theorem resolver_memoized:
  assumes "getTransporter w1 s = (r1, s1, t1)"
  shows "getTransporter_seq ws s1 = (replicate (length ws) r1, s1, [])
         \<and> length (filter (\<lambda>e. e = Require ''nodemailer'') t1) \<le> 1"
  using getTransporter_result[OF assms] getTransporter_seq_settled[of s1 ws]
    getTransporter_checks_once[OF assms]
  by simp

theorem resolver_memoized_witness:
  "getTransporter (world_of Map.empty (Inr ())) initial_state =
     (Inr None, \<lparr>transporter = None, nodemailerChecked = True\<rparr>,
      [Require ''nodemailer'',
       Console_warn [JStr (warning_sign @ ''  EMAIL_USER or EMAIL_PASS not set in environment'')]])
   \<and> truthy (env (world_of env_configured (Inr ())) ''EMAIL_USER'')
   \<and> truthy (env (world_of env_configured (Inr ())) ''EMAIL_PASS'')
   \<and> getTransporter_seq [world_of env_configured (Inr ())] \<lparr>transporter = None, nodemailerChecked = True\<rparr> =
       ([Inr None], \<lparr>transporter = None, nodemailerChecked = True\<rparr>, [])"
  using resolver_memoized [OF getTransporter_unconfigured [of "Inr ()"], of "[world_of env_configured (Inr ())]"]
    getTransporter_unconfigured [of "Inr ()"]
  by (simp add: world_of_def env_configured_def truthy_def)

section \<open>The transport configuration\<close>









section \<open>The action URL\<close>

lemma action_url_without_credentials:
  "action_url k (ev(''EMAIL_USER'' := None)) token = action_url k ev token"
  by (cases k) (simp_all add: action_url_def verificationUrl_def resetUrl_def)

text \<open>
  C6, as the code has it. The base of the action URL is \<open>process.env.CLIENT_URL ||
  'http://localhost:5173'\<close>: with \<open>CLIENT_URL\<close> unset, and also with \<open>CLIENT_URL\<close> set to
  the empty string, the URLs are \<open>http://localhost:5173/verify-email/\<close> and
  \<open>http://localhost:5173/reset-password/\<close> followed by the token as it is; with
  \<open>CLIENT_URL\<close> set to a non-empty string they are that string, the path segment and
  the token as it is, for every token, with nothing encoded. For the token \<open>abc123\<close> and
  no \<open>CLIENT_URL\<close> they are exactly the two URLs of the scenario. These are the URLs the
  two operations return and log in fallback mode.
\<close>

theorem action_url_construction:
  "(ev ''CLIENT_URL'' = None \<longrightarrow>
      verificationUrl ev token = ''http://localhost:5173/verify-email/'' @ token
      \<and> resetUrl ev token = ''http://localhost:5173/reset-password/'' @ token)
   \<and> (ev ''CLIENT_URL'' = Some [] \<longrightarrow>
      verificationUrl ev token = ''http://localhost:5173/verify-email/'' @ token
      \<and> resetUrl ev token = ''http://localhost:5173/reset-password/'' @ token)
   \<and> (ev ''CLIENT_URL'' = Some base \<and> base \<noteq> [] \<longrightarrow>
      verificationUrl ev token = base @ ''/verify-email/'' @ token
      \<and> resetUrl ev token = base @ ''/reset-password/'' @ token)
   \<and> verificationUrl Map.empty ''abc123'' = ''http://localhost:5173/verify-email/abc123''
   \<and> resetUrl Map.empty ''abc123'' = ''http://localhost:5173/reset-password/abc123''
   \<and> (transporter s = None \<and> nodemailerChecked s \<and> env w = ev \<longrightarrow>
        sendVerificationEmail w s email token =
          (Inr [(''success'', JBool True),
                (''message'', JStr ''Email logged to console (check server logs)''),
                (''development'', JBool True),
                (''verificationUrl'', JStr (verificationUrl ev token))],
           s, logEmailToConsole ''VERIFICATION EMAIL'' email (verificationUrl ev token))
        \<and> sendPasswordResetEmail w s email token =
          (Inr [(''success'', JBool True),
                (''message'', JStr ''Email logged to console (check server logs)''),
                (''development'', JBool True),
                (''resetUrl'', JStr (resetUrl ev token))],
           s, logEmailToConsole ''PASSWORD RESET EMAIL'' email (resetUrl ev token)))"
proof -
  have a: "ev ''CLIENT_URL'' = None \<longrightarrow>
      verificationUrl ev token = ''http://localhost:5173/verify-email/'' @ token
      \<and> resetUrl ev token = ''http://localhost:5173/reset-password/'' @ token"
    by (simp add: verificationUrl_def resetUrl_def or_default_def)
  have a': "ev ''CLIENT_URL'' = Some [] \<longrightarrow>
      verificationUrl ev token = ''http://localhost:5173/verify-email/'' @ token
      \<and> resetUrl ev token = ''http://localhost:5173/reset-password/'' @ token"
    by (simp add: verificationUrl_def resetUrl_def or_default_def)
  have b: "ev ''CLIENT_URL'' = Some base \<and> base \<noteq> [] \<longrightarrow>
      verificationUrl ev token = base @ ''/verify-email/'' @ token
      \<and> resetUrl ev token = base @ ''/reset-password/'' @ token"
    by (simp add: verificationUrl_def resetUrl_def or_default_def)
  have c: "verificationUrl Map.empty ''abc123'' = ''http://localhost:5173/verify-email/abc123''
     \<and> resetUrl Map.empty ''abc123'' = ''http://localhost:5173/reset-password/abc123''"
    by (simp add: verificationUrl_def resetUrl_def or_default_def)
  have d: "transporter s = None \<and> nodemailerChecked s \<and> env w = ev \<longrightarrow>
        sendVerificationEmail w s email token =
          (Inr [(''success'', JBool True),
                (''message'', JStr ''Email logged to console (check server logs)''),
                (''development'', JBool True),
                (''verificationUrl'', JStr (verificationUrl ev token))],
           s, logEmailToConsole ''VERIFICATION EMAIL'' email (verificationUrl ev token))
        \<and> sendPasswordResetEmail w s email token =
          (Inr [(''success'', JBool True),
                (''message'', JStr ''Email logged to console (check server logs)''),
                (''development'', JBool True),
                (''resetUrl'', JStr (resetUrl ev token))],
           s, logEmailToConsole ''PASSWORD RESET EMAIL'' email (resetUrl ev token))"
    by (auto simp: sendVerificationEmail_def sendPasswordResetEmail_def Let_def getTransporter_def)
  from a a' b c d show ?thesis by blast
qed

theorem action_url_construction_witness:
  "[''CLIENT_URL'' \<mapsto> ''https://shop.example.com''] ''CLIENT_URL'' = Some ''https://shop.example.com''
   \<and> verificationUrl [''CLIENT_URL'' \<mapsto> ''https://shop.example.com''] ''a b/c?d=%41''
        = ''https://shop.example.com/verify-email/a b/c?d=%41''
   \<and> resetUrl [''CLIENT_URL'' \<mapsto> ''https://shop.example.com''] ''a b/c?d=%41''
        = ''https://shop.example.com/reset-password/a b/c?d=%41''
   \<and> [''CLIENT_URL'' \<mapsto> []] ''CLIENT_URL'' = Some []
   \<and> verificationUrl [''CLIENT_URL'' \<mapsto> []] ''def456'' = ''http://localhost:5173/verify-email/def456''
   \<and> resetUrl [''CLIENT_URL'' \<mapsto> []] ''def456'' = ''http://localhost:5173/reset-password/def456''
   \<and> (Map.empty :: env) ''CLIENT_URL'' = None
   \<and> fst (sendVerificationEmail (world_of Map.empty (Inr ())) \<lparr>transporter = None, nodemailerChecked = True\<rparr>
             ''user@example.com'' ''abc123'') =
         Inr [(''success'', JBool True),
              (''message'', JStr ''Email logged to console (check server logs)''),
              (''development'', JBool True),
              (''verificationUrl'', JStr ''http://localhost:5173/verify-email/abc123'')]
   \<and> fst (sendPasswordResetEmail (world_of Map.empty (Inr ())) \<lparr>transporter = None, nodemailerChecked = True\<rparr>
             ''user@example.com'' ''abc123'') =
         Inr [(''success'', JBool True),
              (''message'', JStr ''Email logged to console (check server logs)''),
              (''development'', JBool True),
              (''resetUrl'', JStr ''http://localhost:5173/reset-password/abc123'')]"
  using action_url_construction [where ev = "[''CLIENT_URL'' \<mapsto> ''https://shop.example.com'']"
          and token = "''a b/c?d=%41''" and base = "''https://shop.example.com''"
          and s = "\<lparr>transporter = None, nodemailerChecked = True\<rparr> :: nat module_state"
          and w = "world_of Map.empty (Inr ())" and email = "''user@example.com''"]
    action_url_construction [where ev = "[''CLIENT_URL'' \<mapsto> []]"
          and token = "''def456''" and base = "''x''"
          and s = "\<lparr>transporter = None, nodemailerChecked = True\<rparr> :: nat module_state"
          and w = "world_of Map.empty (Inr ())" and email = "''user@example.com''"]
    action_url_construction [where ev = "Map.empty" and token = "''abc123''" and base = "''x''"
          and s = "\<lparr>transporter = None, nodemailerChecked = True\<rparr> :: nat module_state"
          and w = "world_of Map.empty (Inr ())" and email = "''user@example.com''"]
  by (simp add: env_world_of)

text \<open>
  C6 as stated fails when \<open>CLIENT_URL\<close> is set to the empty string: the URL is not the
  configured value followed by the path segment and the token (\<open>/verify-email/abc123\<close>),
  it starts with the default, since \<open>||\<close> takes the empty string as absent. The fallback
  outcome of a call in that environment carries the default-based URL.
\<close>

theorem action_url_empty_base_counterexample:
  "[''CLIENT_URL'' \<mapsto> []] ''CLIENT_URL'' = Some []
   \<and> verificationUrl [''CLIENT_URL'' \<mapsto> []] ''abc123'' \<noteq> [] @ ''/verify-email/'' @ ''abc123''
   \<and> verificationUrl [''CLIENT_URL'' \<mapsto> []] ''abc123'' = ''http://localhost:5173/verify-email/abc123''
   \<and> resetUrl [''CLIENT_URL'' \<mapsto> []] ''abc123'' \<noteq> [] @ ''/reset-password/'' @ ''abc123''
   \<and> resetUrl [''CLIENT_URL'' \<mapsto> []] ''abc123'' = ''http://localhost:5173/reset-password/abc123''
   \<and> fst (sendVerificationEmail (world_of [''CLIENT_URL'' \<mapsto> []] (Inr ())) initial_state
             ''user@example.com'' ''abc123'') =
         Inr [(''success'', JBool True),
              (''message'', JStr ''Email logged to console (check server logs)''),
              (''development'', JBool True),
              (''verificationUrl'', JStr ''http://localhost:5173/verify-email/abc123'')]"
  by (simp add: verificationUrl_def resetUrl_def or_default_def Let_def sendVerificationEmail_def
        getTransporter_def loadNodemailer_def world_of_def initial_state_def truthy_def)

section \<open>The notification dispatcher\<close>

lemma dispatch_unavailable:
  assumes "getTransporter w s = (Inr None, s1, t1)"
  shows "dispatch k w s email token =
           (Inr (development_outcome k ''Email logged to console (check server logs)'' (action_url k (env w) token)),
            s1, t1 @ logEmailToConsole (log_type k) email (action_url k (env w) token))"
  using assms
  by (cases k)
     (simp_all add: Let_def dispatch_def sendVerificationEmail_def sendPasswordResetEmail_def
        development_outcome_def url_key_def action_url_def log_type_def)

lemma dispatch_sent:
  assumes "getTransporter w s = (Inr (Some h), s1, t1)"
    and "sendMail w h (mail_options_of k (env w) email (action_url k (env w) token)) = Inr u"
  shows "dispatch k w s email token =
           (Inr (sent_outcome k), s1,
            t1 @ [SendMail (mail_options_of k (env w) email (action_url k (env w) token)),
                  Console_log [JStr (check_mark @ (case k of Verification \<Rightarrow> '' Verification email sent to ''
                                                       | PasswordReset \<Rightarrow> '' Password reset email sent to '') @ email)]])"
  using assms
  by (cases k)
     (simp_all add: Let_def dispatch_def sendVerificationEmail_def sendPasswordResetEmail_def
        sent_outcome_def mail_options_of_def action_url_def)

lemma dispatch_connection_error:
  assumes "getTransporter w s = (Inr (Some h), s1, t1)"
    and "sendMail w h (mail_options_of k (env w) email (action_url k (env w) token)) = Inl error"
    and "connection_error error"
  shows "dispatch k w s email token =
           (Inr (development_outcome k
                   ''Email logged to console (SMTP connection failed - check your network/firewall)''
                   (action_url k (env w) token)),
            s1,
            t1 @ [SendMail (mail_options_of k (env w) email (action_url k (env w) token)),
                  send_error_log k error,
                  Console_log [JStr (warning_sign @ ''  Email server connection failed. Falling back to console logging...'')]]
               @ logEmailToConsole (log_type k) email (action_url k (env w) token))"
  using assms
  by (cases k)
     (simp_all add: Let_def dispatch_def sendVerificationEmail_def sendPasswordResetEmail_def
        development_outcome_def url_key_def action_url_def log_type_def mail_options_of_def
        send_error_log_def kind_words_def)

lemma dispatch_other_error:
  assumes "getTransporter w s = (Inr (Some h), s1, t1)"
    and "sendMail w h (mail_options_of k (env w) email (action_url k (env w) token)) = Inl error"
    and "\<not> connection_error error"
  shows "dispatch k w s email token =
           (Inr (failed_outcome k (message error)), s1,
            t1 @ [SendMail (mail_options_of k (env w) email (action_url k (env w) token)),
                  send_error_log k error])"
  using assms
  by (cases k)
     (simp_all add: Let_def dispatch_def sendVerificationEmail_def sendPasswordResetEmail_def
        failed_outcome_def action_url_def mail_options_of_def
        send_error_log_def kind_words_def)

text \<open>Every call ends in one of the four outcomes.\<close>

lemma dispatch_outcomes:
  "\<exists>out s1 t. dispatch k w s email token = (Inr out, s1, t)
     \<and> (out = development_outcome k ''Email logged to console (check server logs)'' (action_url k (env w) token)
        \<or> out = sent_outcome k
        \<or> out = development_outcome k
                  ''Email logged to console (SMTP connection failed - check your network/firewall)''
                  (action_url k (env w) token)
        \<or> (\<exists>detail. out = failed_outcome k detail))"
proof -
  obtain r s1 t1 where g: "getTransporter w s = (r, s1, t1)"
    by (cases "getTransporter w s") auto
  from getTransporter_result[OF g] have r: "r = Inr (transporter s1)" by simp
  show ?thesis
  proof (cases "transporter s1")
    case None
    with g r have "getTransporter w s = (Inr None, s1, t1)" by simp
    from dispatch_unavailable[OF this] show ?thesis by simp
  next
    case (Some h)
    with g r have g': "getTransporter w s = (Inr (Some h), s1, t1)" by simp
    show ?thesis
    proof (cases "sendMail w h (mail_options_of k (env w) email (action_url k (env w) token))")
      case (Inr u)
      from dispatch_sent[OF g' Inr] show ?thesis by simp
    next
      case (Inl error)
      show ?thesis
      proof (cases "connection_error error")
        case True
        from dispatch_connection_error[OF g' Inl True] show ?thesis by simp
      next
        case False
        from dispatch_other_error[OF g' Inl False] show ?thesis by auto
      qed
    qed
  qed
qed

text \<open>
  C8. Whatever the inputs, the module state and the behaviour of the collaborators (the
  library fails to load, the construction of the transport throws, the send throws with
  any code or none), both operations complete by returning an object with a boolean
  \<open>success\<close> and a string \<open>message\<close>: no call completes with a thrown error.
\<close>

theorem no_exception_escapes:
  "\<exists>out s1 t. dispatch k w s email token = (Inr out, s1, t)
      \<and> (\<exists>b. map_of out ''success'' = Some (JBool b))
      \<and> (\<exists>m. map_of out ''message'' = Some (JStr m))"
  using dispatch_outcomes[of k w s email token]
  by (auto simp: development_outcome_def sent_outcome_def failed_outcome_def)

text \<open>
  C3. When the resolver yields a handle and \<open>sendMail\<close> throws an error whose code is
  \<open>ESOCKET\<close>, \<open>ETIMEDOUT\<close> or \<open>ECONNREFUSED\<close>, the call logs the error, runs
  \<open>logEmailToConsole\<close> once with the recipient and the action URL, and returns
  \<open>success\<close> true, \<open>development\<close> true, the action URL and the message that names the
  SMTP connection failure.
\<close>

theorem connection_failure_falls_back:
  assumes "getTransporter w s = (Inr (Some h), s1, t1)"
    and "sendMail w h (mail_options_of k (env w) email (action_url k (env w) token)) = Inl error"
    and "code error \<in> {Some ''ESOCKET'', Some ''ETIMEDOUT'', Some ''ECONNREFUSED''}"
  shows "dispatch k w s email token =
           (Inr (development_outcome k
                   ''Email logged to console (SMTP connection failed - check your network/firewall)''
                   (action_url k (env w) token)),
            s1,
            t1 @ [SendMail (mail_options_of k (env w) email (action_url k (env w) token)),
                  send_error_log k error,
                  Console_log [JStr (warning_sign @ ''  Email server connection failed. Falling back to console logging...'')]]
               @ logEmailToConsole (log_type k) email (action_url k (env w) token))"
proof -
  from assms(3) have "connection_error error" by (auto simp: connection_error_def)
  from dispatch_connection_error[OF assms(1,2) this] show ?thesis .
qed

theorem connection_failure_falls_back_witness:
  "fst (getTransporter (world_of env_configured (Inl refused)) initial_state) = Inr (Some 1)
   \<and> sendMail (world_of env_configured (Inl refused)) 1
        (mail_options_of PasswordReset env_configured ''user@example.com''
           (action_url PasswordReset env_configured ''abc123'')) = Inl refused
   \<and> code refused = Some ''ECONNREFUSED''
   \<and> fst (dispatch PasswordReset (world_of env_configured (Inl refused)) initial_state
             ''user@example.com'' ''abc123'') =
       Inr [(''success'', JBool True),
            (''message'', JStr ''Email logged to console (SMTP connection failed - check your network/firewall)''),
            (''development'', JBool True),
            (''resetUrl'', JStr ''http://localhost:5173/reset-password/abc123'')]"
proof -
  note e = env_world_of sendMail_world_of
  have sm: "sendMail (world_of env_configured (Inl refused)) 1
        (mail_options_of PasswordReset (env (world_of env_configured (Inl refused))) ''user@example.com''
           (action_url PasswordReset (env (world_of env_configured (Inl refused))) ''abc123'')) = Inl refused"
    by (simp add: sendMail_world_of)
  have c: "code refused \<in> {Some ''ESOCKET'', Some ''ETIMEDOUT'', Some ''ECONNREFUSED''}"
    by (simp add: refused_def)
  from connection_failure_falls_back [OF getTransporter_configured sm c] sm c getTransporter_configured [of "Inl refused"]
  show ?thesis
    by (simp add: e development_outcome_def url_key_def action_url_def resetUrl_def or_default_def
          env_configured_def refused_def)
qed

text \<open>
  C4. When the resolver yields a handle and \<open>sendMail\<close> throws an error whose code is
  none of the three connection codes (or is absent), the call returns \<open>success\<close> false,
  the per-kind failure message and the error's message under \<open>error\<close>; beyond the
  resolver's effects it makes one send attempt and logs one error line: no fallback log,
  no second attempt.
\<close>

theorem other_failure_is_reported:
  assumes "getTransporter w s = (Inr (Some h), s1, t1)"
    and "sendMail w h (mail_options_of k (env w) email (action_url k (env w) token)) = Inl error"
    and "code error \<notin> {Some ''ESOCKET'', Some ''ETIMEDOUT'', Some ''ECONNREFUSED''}"
  shows "dispatch k w s email token =
           (Inr [(''success'', JBool False),
                 (''message'', JStr (case k of Verification \<Rightarrow> ''Failed to send verification email''
                                             | PasswordReset \<Rightarrow> ''Failed to send password reset email'')),
                 (''error'', JStr (message error))],
            s1,
            t1 @ [SendMail (mail_options_of k (env w) email (action_url k (env w) token)),
                  send_error_log k error])"
proof -
  from assms(3) have "\<not> connection_error error" by (auto simp: connection_error_def)
  from dispatch_other_error[OF assms(1,2) this] show ?thesis
    by (cases k) (simp_all add: failed_outcome_def kind_words_def)
qed

theorem other_failure_is_reported_witness:
  "fst (getTransporter (world_of env_configured (Inl invalid_login)) initial_state) = Inr (Some 1)
   \<and> sendMail (world_of env_configured (Inl invalid_login)) 1
        (mail_options_of Verification env_configured ''user@example.com''
           (action_url Verification env_configured ''abc123'')) = Inl invalid_login
   \<and> code invalid_login = Some ''EAUTH''
   \<and> dispatch Verification (world_of env_configured (Inl invalid_login)) initial_state
             ''user@example.com'' ''abc123'' =
       (Inr [(''success'', JBool False),
             (''message'', JStr ''Failed to send verification email''),
             (''error'', JStr ''Invalid login'')],
        \<lparr>transporter = Some 1, nodemailerChecked = True\<rparr>,
        [Require ''nodemailer'', CreateTransport (transportConfig env_configured),
         Console_log [JStr (check_mark @ '' Email transporter configured successfully'')],
         SendMail (mail_options_of Verification env_configured ''user@example.com''
                     (action_url Verification env_configured ''abc123'')),
         Console_error [JStr (cross_mark @ '' Error sending verification email:''), JStr ''Invalid login'']])"
proof -
  note e = env_world_of sendMail_world_of
  have sm: "sendMail (world_of env_configured (Inl invalid_login)) 1
        (mail_options_of Verification (env (world_of env_configured (Inl invalid_login))) ''user@example.com''
           (action_url Verification (env (world_of env_configured (Inl invalid_login))) ''abc123'')) = Inl invalid_login"
    by (simp add: sendMail_world_of)
  have c: "code invalid_login \<notin> {Some ''ESOCKET'', Some ''ETIMEDOUT'', Some ''ECONNREFUSED''}"
    by (simp add: invalid_login_def)
  from other_failure_is_reported [OF getTransporter_configured sm c] sm c getTransporter_configured [of "Inl invalid_login"]
  show ?thesis
    by (simp add: e send_error_log_def kind_words_def invalid_login_def)
qed

section \<open>Calls without a transport\<close>

lemma run_unavailable:
  assumes "transporter s = None" and "nodemailerChecked s"
  shows "run cs s = (map fallback_result cs, s, concat (map fallback_log cs))"
proof (induction cs)
  case Nil
  show ?case by simp
next
  case (Cons c cs)
  from assms have "getTransporter (call_world c) s = (Inr None, s, [])"
    by (simp add: getTransporter_def)
  from dispatch_unavailable[OF this, of "call_kind c" "call_email c" "call_token c"] Cons.IH
  show ?case by (simp add: fallback_result_def fallback_log_def)
qed

lemma run_no_credentials:
  assumes "transporter s = None"
    and "list_all (\<lambda>c. no_credentials (env (call_world c))) cs"
  shows "fst (run cs s) = map fallback_result cs \<and> transporter (fst (snd (run cs s))) = None"
  using assms
proof (induction cs arbitrary: s)
  case Nil
  then show ?case by simp
next
  case (Cons c cs)
  from Cons.prems have nc: "no_credentials (env (call_world c))" by simp
  from getTransporter_no_credentials[OF Cons.prems(1) nc] obtain pre where
    g: "getTransporter (call_world c) s = (Inr None, s\<lparr>nodemailerChecked := True\<rparr>, pre)" by blast
  have s1: "transporter (s\<lparr>nodemailerChecked := True\<rparr>) = None" using Cons.prems(1) by simp
  from Cons.prems have rest: "list_all (\<lambda>c. no_credentials (env (call_world c))) cs" by simp
  from Cons.IH[OF s1 rest] dispatch_unavailable[OF g, of "call_kind c" "call_email c" "call_token c"]
  show ?case by (auto simp: fallback_result_def split: prod.splits)
qed

text \<open>
  C2, as the code has it. A call made while no transport handle is cached and with
  \<open>EMAIL_USER\<close> or \<open>EMAIL_PASS\<close> unset (or empty) returns the fallback outcome
  (\<open>success\<close> true, \<open>development\<close> true, the first fallback message, the action URL),
  never a failure; after whatever the resolver printed (\<open>pre\<close>: nothing, the library
  load, or the load and the warning) its effects are exactly one run of
  \<open>logEmailToConsole\<close> with the call's recipient and action URL; and no handle is cached
  afterwards. So in a process where every call so far found a credential missing, every
  call returns the fallback outcome.
\<close>

theorem unconfigured_call_falls_back:
  assumes "transporter s = None"
    and "\<not> truthy (env w ''EMAIL_USER'') \<or> \<not> truthy (env w ''EMAIL_PASS'')"
  shows "(\<exists>pre. dispatch k w s email token =
            (Inr (development_outcome k ''Email logged to console (check server logs)''
                    (action_url k (env w) token)),
             s\<lparr>nodemailerChecked := True\<rparr>,
             pre @ logEmailToConsole (log_type k) email (action_url k (env w) token))
          \<and> pre \<in> {[], [Require ''nodemailer''],
                     [Require ''nodemailer'',
                      Console_warn [JStr (warning_sign @ ''  EMAIL_USER or EMAIL_PASS not set in environment'')]]})
     \<and> (list_all (\<lambda>c. \<not> truthy (env (call_world c) ''EMAIL_USER'') \<or> \<not> truthy (env (call_world c) ''EMAIL_PASS'')) cs
          \<longrightarrow> fst (run cs s) = map fallback_result cs)"
proof -
  from assms(2) have "no_credentials (env w)" by (simp add: no_credentials_def)
  from getTransporter_no_credentials[OF assms(1) this] obtain pre where
    g: "getTransporter w s = (Inr None, s\<lparr>nodemailerChecked := True\<rparr>, pre)"
    and pre: "pre \<in> {[], [Require ''nodemailer''],
                     [Require ''nodemailer'',
                      Console_warn [JStr (warning_sign @ ''  EMAIL_USER or EMAIL_PASS not set in environment'')]]}"
    by blast
  from dispatch_unavailable[OF g, of k email token] pre
  have one: "\<exists>pre. dispatch k w s email token =
            (Inr (development_outcome k ''Email logged to console (check server logs)''
                    (action_url k (env w) token)),
             s\<lparr>nodemailerChecked := True\<rparr>,
             pre @ logEmailToConsole (log_type k) email (action_url k (env w) token))
          \<and> pre \<in> {[], [Require ''nodemailer''],
                     [Require ''nodemailer'',
                      Console_warn [JStr (warning_sign @ ''  EMAIL_USER or EMAIL_PASS not set in environment'')]]}"
    by blast
  have "fst (run cs s) = map fallback_result cs"
    if "list_all (\<lambda>c. \<not> truthy (env (call_world c) ''EMAIL_USER'') \<or> \<not> truthy (env (call_world c) ''EMAIL_PASS'')) cs"
  proof -
    from that have "list_all (\<lambda>c. no_credentials (env (call_world c))) cs"
      by (simp add: no_credentials_def)
    from run_no_credentials[OF assms(1) this] show ?thesis by simp
  qed
  with one show ?thesis by blast
qed

theorem unconfigured_call_falls_back_witness:
  "transporter (initial_state :: nat module_state) = None
   \<and> env (world_of Map.empty (Inr ())) ''EMAIL_USER'' = None
   \<and> fst (dispatch Verification (world_of Map.empty (Inr ())) initial_state ''user@example.com'' ''abc123'') =
       Inr [(''success'', JBool True),
            (''message'', JStr ''Email logged to console (check server logs)''),
            (''development'', JBool True),
            (''verificationUrl'', JStr ''http://localhost:5173/verify-email/abc123'')]
   \<and> fst (run [\<lparr>call_kind = PasswordReset, call_world = world_of Map.empty (Inr ()),
                  call_email = ''user@example.com'', call_token = ''abc123''\<rparr>,
                \<lparr>call_kind = Verification, call_world = world_of [''EMAIL_USER'' \<mapsto> ''shop@example.com''] (Inr ()),
                  call_email = ''user@example.com'', call_token = ''def456''\<rparr>] initial_state) =
       [Inr [(''success'', JBool True),
             (''message'', JStr ''Email logged to console (check server logs)''),
             (''development'', JBool True),
             (''resetUrl'', JStr ''http://localhost:5173/reset-password/abc123'')],
        Inr [(''success'', JBool True),
             (''message'', JStr ''Email logged to console (check server logs)''),
             (''development'', JBool True),
             (''verificationUrl'', JStr ''http://localhost:5173/verify-email/def456'')]]"
  using unconfigured_call_falls_back [of "initial_state :: nat module_state" "world_of Map.empty (Inr ())"
      Verification "''user@example.com''" "''abc123''"
      "[\<lparr>call_kind = PasswordReset, call_world = world_of Map.empty (Inr ()),
                  call_email = ''user@example.com'', call_token = ''abc123''\<rparr>,
                \<lparr>call_kind = Verification, call_world = world_of [''EMAIL_USER'' \<mapsto> ''shop@example.com''] (Inr ()),
                  call_email = ''user@example.com'', call_token = ''def456''\<rparr>]"]
  by (auto simp: initial_state_def world_of_def truthy_def development_outcome_def url_key_def
        action_url_def verificationUrl_def resetUrl_def or_default_def fallback_result_def)

text \<open>
  C2 as stated fails once a handle is cached: a first call with both credentials set
  builds and caches the transport; a second call, made with both variables unset, still
  sends through the cached handle, and a rejected login is reported with \<open>success\<close>
  false.
\<close>

theorem unset_credentials_counterexample:
  "env (world_of Map.empty (Inl \<lparr>code = Some ''EAUTH'', message = ''Invalid login''\<rparr>)) ''EMAIL_USER'' = None
   \<and> env (world_of Map.empty (Inl \<lparr>code = Some ''EAUTH'', message = ''Invalid login''\<rparr>)) ''EMAIL_PASS'' = None
   \<and> fst (run [\<lparr>call_kind = Verification, call_world = world_of env_configured (Inr ()),
                  call_email = ''user@example.com'', call_token = ''abc123''\<rparr>,
                \<lparr>call_kind = Verification,
                  call_world = world_of Map.empty (Inl \<lparr>code = Some ''EAUTH'', message = ''Invalid login''\<rparr>),
                  call_email = ''user@example.com'', call_token = ''abc123''\<rparr>] initial_state) =
       [Inr [(''success'', JBool True), (''message'', JStr ''Verification email sent successfully'')],
        Inr [(''success'', JBool False), (''message'', JStr ''Failed to send verification email''),
             (''error'', JStr ''Invalid login'')]]"
proof -
  have g1: "getTransporter (world_of env_configured (Inr ())) initial_state =
     (Inr (Some 1), \<lparr>transporter = Some 1, nodemailerChecked = True\<rparr>,
      [Require ''nodemailer'', CreateTransport (transportConfig env_configured),
       Console_log [JStr (check_mark @ '' Email transporter configured successfully'')]])"
    by (rule getTransporter_configured)
  have g2: "getTransporter (world_of Map.empty (Inl \<lparr>code = Some ''EAUTH'', message = ''Invalid login''\<rparr>))
              \<lparr>transporter = Some 1, nodemailerChecked = True\<rparr> =
            (Inr (Some 1), \<lparr>transporter = Some 1, nodemailerChecked = True\<rparr>, [])"
    by (simp add: getTransporter_def)
  have e: "\<not> connection_error \<lparr>code = Some ''EAUTH'', message = ''Invalid login''\<rparr>"
    by (simp add: connection_error_def)
  note d1 = dispatch_sent[OF g1, of Verification "''user@example.com''" "''abc123''" "()"]
  note d2 = dispatch_other_error[OF g2 _ e, of Verification "''user@example.com''" "''abc123''"]
  have r: "fst (run [\<lparr>call_kind = Verification, call_world = world_of env_configured (Inr ()),
                  call_email = ''user@example.com'', call_token = ''abc123''\<rparr>,
                \<lparr>call_kind = Verification,
                  call_world = world_of Map.empty (Inl \<lparr>code = Some ''EAUTH'', message = ''Invalid login''\<rparr>),
                  call_email = ''user@example.com'', call_token = ''abc123''\<rparr>] initial_state) =
       [Inr (sent_outcome Verification), Inr (failed_outcome Verification ''Invalid login'')]"
    using d1 d2 by (simp add: world_of_def)
  have v: "env (world_of Map.empty (Inl \<lparr>code = Some ''EAUTH'', message = ''Invalid login''\<rparr>)) = Map.empty"
    by (simp add: world_of_def)
  from r v show ?thesis
    by (simp add: sent_outcome_def failed_outcome_def kind_words_def)
qed

text \<open>
  C10. From a state with nothing cached and nothing checked, when the library loads, both
  credentials are set and \<open>createTransport\<close> throws, \<open>getTransporter\<close> logs the error,
  returns \<open>null\<close> and sets \<open>nodemailerChecked\<close>. The call that met the failure returns
  the fallback outcome (\<open>success\<close> true, \<open>development\<close> true, the first fallback message,
  one run of \<open>logEmailToConsole\<close>), the same object as in the same world without
  \<open>EMAIL_USER\<close>; and every later sequence of calls \<open>cs\<close>, in any worlds, returns the
  fallback outcomes, prints only the fallback banners (no library load, no construction)
  and leaves the state as it is.
\<close>

theorem construction_failure_degrades:
  assumes "transporter s = None" and "\<not> nodemailerChecked s"
    and "require_nodemailer w = Inr u"
    and "truthy (env w ''EMAIL_USER'')" and "truthy (env w ''EMAIL_PASS'')"
    and "createTransport w (transportConfig (env w)) = Inl error"
  shows "getTransporter w s =
           (Inr None, s\<lparr>nodemailerChecked := True\<rparr>,
            [Require ''nodemailer'', CreateTransport (transportConfig (env w)),
             Console_error [JStr (cross_mark @ '' Failed to create email transporter:''),
                            JStr (message error)]])
     \<and> dispatch k w s email token =
           (Inr (development_outcome k ''Email logged to console (check server logs)''
                   (action_url k (env w) token)),
            s\<lparr>nodemailerChecked := True\<rparr>,
            [Require ''nodemailer'', CreateTransport (transportConfig (env w)),
             Console_error [JStr (cross_mark @ '' Failed to create email transporter:''),
                            JStr (message error)]]
              @ logEmailToConsole (log_type k) email (action_url k (env w) token))
     \<and> fst (dispatch k w s email token) =
         fst (dispatch k (w\<lparr>env := (env w)(''EMAIL_USER'' := None)\<rparr>) s email token)
     \<and> run cs (s\<lparr>nodemailerChecked := True\<rparr>) =
           (map fallback_result cs, s\<lparr>nodemailerChecked := True\<rparr>, concat (map fallback_log cs))"
proof -
  note g = getTransporter_construction_fails[OF assms]
  note d = dispatch_unavailable[OF g, of k email token]
  have "no_credentials (env (w\<lparr>env := (env w)(''EMAIL_USER'' := None)\<rparr>))"
    by (simp add: no_credentials_def truthy_def)
  from getTransporter_no_credentials[OF assms(1) this] obtain pre where
    "getTransporter (w\<lparr>env := (env w)(''EMAIL_USER'' := None)\<rparr>) s =
       (Inr None, s\<lparr>nodemailerChecked := True\<rparr>, pre)" by blast
  from dispatch_unavailable[OF this, of k email token]
  have same: "fst (dispatch k w s email token) =
         fst (dispatch k (w\<lparr>env := (env w)(''EMAIL_USER'' := None)\<rparr>) s email token)"
    using d by (simp add: action_url_without_credentials)
  have later: "run cs (s\<lparr>nodemailerChecked := True\<rparr>) =
           (map fallback_result cs, s\<lparr>nodemailerChecked := True\<rparr>, concat (map fallback_log cs))"
    using assms(1) by (intro run_unavailable) simp_all
  from g d same later show ?thesis by simp
qed

theorem construction_failure_degrades_witness:
  "transporter (initial_state :: nat module_state) = None
   \<and> nodemailerChecked (initial_state :: nat module_state) = False
   \<and> require_nodemailer world_construction_fails = Inr ()
   \<and> truthy (env world_construction_fails ''EMAIL_USER'')
   \<and> truthy (env world_construction_fails ''EMAIL_PASS'')
   \<and> createTransport world_construction_fails (transportConfig (env world_construction_fails)) =
        Inl \<lparr>code = None, message = ''Invalid transport configuration''\<rparr>
   \<and> fst (dispatch Verification world_construction_fails initial_state ''user@example.com'' ''abc123'') =
       Inr [(''success'', JBool True),
            (''message'', JStr ''Email logged to console (check server logs)''),
            (''development'', JBool True),
            (''verificationUrl'', JStr ''http://localhost:5173/verify-email/abc123'')]
   \<and> run [\<lparr>call_kind = PasswordReset, call_world = world_of env_configured (Inr ()),
             call_email = ''user@example.com'', call_token = ''def456''\<rparr>]
         \<lparr>transporter = None, nodemailerChecked = True\<rparr> =
       ([Inr [(''success'', JBool True),
              (''message'', JStr ''Email logged to console (check server logs)''),
              (''development'', JBool True),
              (''resetUrl'', JStr ''http://localhost:5173/reset-password/def456'')]],
        \<lparr>transporter = None, nodemailerChecked = True\<rparr>,
        logEmailToConsole ''PASSWORD RESET EMAIL'' ''user@example.com''
          ''http://localhost:5173/reset-password/def456'')"
proof -
  have h1: "transporter (initial_state :: nat module_state) = None"
    and h2: "\<not> nodemailerChecked (initial_state :: nat module_state)"
    by (simp_all add: initial_state_def)
  have h3: "require_nodemailer world_construction_fails = Inr ()"
    and h4: "truthy (env world_construction_fails ''EMAIL_USER'')"
    and h5: "truthy (env world_construction_fails ''EMAIL_PASS'')"
    and h6: "createTransport world_construction_fails (transportConfig (env world_construction_fails)) =
        Inl \<lparr>code = None, message = ''Invalid transport configuration''\<rparr>"
    by (simp_all add: world_construction_fails_def env_configured_def truthy_def)
  have e: "env world_construction_fails ''CLIENT_URL'' = None"
    by (simp add: world_construction_fails_def env_configured_def)
  from construction_failure_degrades [OF h1 h2 h3 h4 h5 h6, of Verification "''user@example.com''" "''abc123''"
      "[\<lparr>call_kind = PasswordReset, call_world = world_of env_configured (Inr ()),
             call_email = ''user@example.com'', call_token = ''def456''\<rparr>]"]
    h1 h2 h3 h4 h5 h6
  show ?thesis
    by (simp add: e initial_state_def development_outcome_def url_key_def action_url_def log_type_def
          verificationUrl_def resetUrl_def or_default_def fallback_result_def fallback_log_def
          world_of_def env_configured_def)
qed

section \<open>The outcome objects\<close>

lemma shape_development:
  "outcome_shape k (development_outcome k msg u)
   \<and> map_of (development_outcome k msg u) ''development'' = Some (JBool True)
   \<and> map_of (development_outcome k msg u) (url_key k) = Some (JStr u)
   \<and> map_of (development_outcome k msg u) ''actionUrl'' = None
   \<and> map_of (development_outcome k msg u) ''error'' = None"
  by (cases k)
     (simp_all add: outcome_shape_def development_outcome_def url_key_def field_is_bool_def field_is_string_def)

lemma shape_sent:
  "outcome_shape k (sent_outcome k)
   \<and> map_of (sent_outcome k) ''development'' = None
   \<and> map_of (sent_outcome k) (url_key k) = None
   \<and> map_of (sent_outcome k) ''actionUrl'' = None
   \<and> map_of (sent_outcome k) ''error'' = None"
  by (cases k)
     (simp_all add: outcome_shape_def sent_outcome_def url_key_def field_is_bool_def field_is_string_def)

lemma shape_failed:
  "outcome_shape k (failed_outcome k d)
   \<and> map_of (failed_outcome k d) ''development'' = None
   \<and> map_of (failed_outcome k d) (url_key k) = None
   \<and> map_of (failed_outcome k d) ''actionUrl'' = None
   \<and> map_of (failed_outcome k d) ''error'' = Some (JStr d)"
  by (cases k)
     (simp_all add: outcome_shape_def failed_outcome_def url_key_def field_is_bool_def field_is_string_def)

text \<open>
  C1, as the code has it. Every call of either operation returns an object of the shape
  \<open>outcome_shape\<close>. It has no field \<open>actionUrl\<close>: a fallback outcome (one with
  \<open>development\<close> true) carries the action URL under \<open>verificationUrl\<close>
  (\<open>sendVerificationEmail\<close>) or \<open>resetUrl\<close> (\<open>sendPasswordResetEmail\<close>), and an outcome
  without \<open>development\<close> has no URL field.
\<close>

theorem outcome_contract:
  "\<exists>out s1 t. dispatch k w s email token = (Inr out, s1, t)
     \<and> outcome_shape k out
     \<and> map_of out ''actionUrl'' = None
     \<and> (map_of out ''development'' = Some (JBool True)
          \<longrightarrow> map_of out (url_key k) = Some (JStr (action_url k (env w) token)))
     \<and> (map_of out ''development'' = None \<longrightarrow> map_of out (url_key k) = None)"
  using dispatch_outcomes[of k w s email token] shape_development[of k] shape_sent[of k] shape_failed[of k]
  by (elim exE conjE disjE) (simp_all)

theorem outcome_contract_witness:
  "fst (dispatch Verification (world_of Map.empty (Inr ())) initial_state ''user@example.com'' ''abc123'') =
     Inr [(''success'', JBool True),
          (''message'', JStr ''Email logged to console (check server logs)''),
          (''development'', JBool True),
          (''verificationUrl'', JStr ''http://localhost:5173/verify-email/abc123'')]
   \<and> outcome_shape Verification
        [(''success'', JBool True),
          (''message'', JStr ''Email logged to console (check server logs)''),
          (''development'', JBool True),
          (''verificationUrl'', JStr ''http://localhost:5173/verify-email/abc123'')]"
proof -
  have g: "getTransporter (world_of Map.empty (Inr ())) initial_state =
     (Inr None, \<lparr>transporter = None, nodemailerChecked = True\<rparr>,
      [Require ''nodemailer'',
       Console_warn [JStr (warning_sign @ ''  EMAIL_USER or EMAIL_PASS not set in environment'')]])"
    by (rule getTransporter_unconfigured)
  note d = dispatch_unavailable[OF g, of Verification "''user@example.com''" "''abc123''"]
  from outcome_contract [of Verification "world_of Map.empty (Inr ())" initial_state "''user@example.com''" "''abc123''"] d
  show ?thesis
    by (auto simp: env_world_of development_outcome_def url_key_def action_url_def verificationUrl_def or_default_def)
qed

text \<open>
  C1 as stated fails at its named fields: the fallback outcome of a verification call has
  no \<open>actionUrl\<close> and no \<open>developmentFlag\<close>; the URL is under \<open>verificationUrl\<close>.
\<close>

theorem outcome_actionUrl_counterexample:
  "fst (sendVerificationEmail (world_of Map.empty (Inr ())) initial_state ''user@example.com'' ''abc123'') =
     Inr [(''success'', JBool True),
          (''message'', JStr ''Email logged to console (check server logs)''),
          (''development'', JBool True),
          (''verificationUrl'', JStr ''http://localhost:5173/verify-email/abc123'')]
   \<and> map_of [(''success'', JBool True),
          (''message'', JStr ''Email logged to console (check server logs)''),
          (''development'', JBool True),
          (''verificationUrl'', JStr ''http://localhost:5173/verify-email/abc123'')] ''actionUrl'' = None
   \<and> map_of [(''success'', JBool True),
          (''message'', JStr ''Email logged to console (check server logs)''),
          (''development'', JBool True),
          (''verificationUrl'', JStr ''http://localhost:5173/verify-email/abc123'')] ''developmentFlag'' = None"
  by (simp add: Let_def sendVerificationEmail_def getTransporter_unconfigured env_world_of verificationUrl_def or_default_def)

section \<open>The upload controller's cleanup\<close>

text \<open>
  The two ways to the \<open>catch\<close> block: the upload throws, or the upload succeeds and the
  removal throws. Both answer 500 with the message of the error that was caught.
\<close>

lemma uploadFile_upload_fails:
  assumes "req_file req = Some f"
    and "uploadToCloudinary w fs (path f) = (Inl error, fs1)"
  shows "\<exists>fs2 t. uploadFile w fs req =
           (Inr \<lparr>status = 500,
                 body = [(''success'', JBool False),
                         (''message'', JStr (if message error \<noteq> [] then message error else ''Upload failed''))]\<rparr>,
            fs2, t)"
  using assms
  by (auto simp: uploadFile_def uploadFile_catch_def Let_def split: sum.splits prod.splits)

lemma uploadFile_unlink_fails_after_upload:
  assumes "req_file req = Some f"
    and "uploadToCloudinary w fs (path f) = (Inr result, fs1)"
    and "unlinkSync w fs1 (path f) = Inl error"
  shows "\<exists>fs2 t. uploadFile w fs req =
           (Inr \<lparr>status = 500,
                 body = [(''success'', JBool False),
                         (''message'', JStr (if message error \<noteq> [] then message error else ''Upload failed''))]\<rparr>,
            fs2, t)"
  using assms
  by (auto simp: uploadFile_def uploadFile_catch_def Let_def split: sum.splits prod.splits)

text \<open>
  C9 at a failing input. The upload succeeds and \<open>fs.unlinkSync\<close> throws: the
  \<open>unlinkSync\<close> of the success path is not in a \<open>try\<close> of its own, so its error reaches
  the outer \<open>catch\<close>, which tries the removal again (logging that failure) and answers 500
  with the removal's message, although the file was uploaded.
\<close>

theorem uploadFile_cleanup_failure_after_upload:
  "uploadFile upload_world_unlink_fails [''uploads/tmp-1'']
     \<lparr>req_file = Some \<lparr>path = ''uploads/tmp-1''\<rparr>\<rparr> =
   (Inr \<lparr>status = 500,
         body = [(''success'', JBool False),
                 (''message'', JStr ''EPERM: operation not permitted, unlink'')]\<rparr>,
    [''uploads/tmp-1''],
    [UploadToCloudinary ''uploads/tmp-1'', UnlinkSync ''uploads/tmp-1'', UnlinkSync ''uploads/tmp-1'',
     Console_error [JStr ''Error deleting temporary file:'', JError unlink_error],
     Console_error [JStr ''Upload error details:'', JError unlink_error],
     Console_error [JStr ''Cloudinary config:'',
                    JObj [(''cloud_name'', JStr ''Set''), (''api_key'', JStr ''Set''),
                          (''api_secret'', JStr ''Set'')]]])"
  by (simp add: uploadFile_def uploadFile_catch_def upload_world_unlink_fails_def unlink_error_def
        set_or_not_def truthy_def)

end
